theory Spec2Isabelle
  imports Complex_Main "HOL-Library.Sublist"
begin

section \<open>Python values, exceptions and the external library\<close>

text \<open>
  \<^verbatim>\<open>app.py\<close> consists of one function, \<^verbatim>\<open>predict_loan\<close>, and three module-level
  names bound once at import time (\<^verbatim>\<open>model\<close>, \<^verbatim>\<open>scaler\<close>, \<^verbatim>\<open>feature_names\<close>).
  Python floats are kept abstract (type variable \<open>'f\<close>): the code only passes them
  through, multiplies one of them by 100 and formats it with \<^verbatim>\<open>:.2f\<close>.
  Python strings are byte lists holding the UTF-8 encoding of the text.
\<close>

datatype 'f number = PyInt int | PyFloat 'f

text \<open>
  An exception object raised by a library call or by an index operation. The code
  observes two things of it: whether \<^verbatim>\<open>except Exception\<close> matches it, and \<^verbatim>\<open>str(e)\<close>.
\<close>

datatype raised = Raised (is_Exception: bool) (str: string)

text \<open>
  What may leave \<^verbatim>\<open>predict_loan\<close> as an exception: a \<^verbatim>\<open>KeyError\<close> raised before the
  \<^verbatim>\<open>try\<close> block (its argument lists the keys that were not found), or an exception
  raised inside the block that \<^verbatim>\<open>except Exception\<close> does not match.
\<close>

datatype exn = KeyError "string list" | Uncaught raised

type_synonym 'f row = "(string \<times> 'f number) list"

text \<open>
  The calls into scikit-learn, pandas and the float primitives. Objects of the library
  (the scaler, the model, arrays and frames built from arrays) have the opaque type
  \<open>'o\<close>. A method takes the receiver and returns its result, or the exception it
  raises, together with the receiver as the call leaves it.
\<close>

record ('o, 'f) library =
  transform :: "'o \<Rightarrow> 'f row \<Rightarrow> (raised + 'o) \<times> 'o"
  DataFrame :: "'o \<Rightarrow> string list \<Rightarrow> raised + 'o"
  predict :: "'o \<Rightarrow> 'o \<Rightarrow> (raised + int list) \<times> 'o"
  predict_proba :: "'o \<Rightarrow> 'o \<Rightarrow> (raised + 'f list list) \<times> 'o"
  times_100 :: "'f \<Rightarrow> 'f"
  format_2f :: "'f \<Rightarrow> string"

text \<open>The module-level state, lines 14 to 17.\<close>

record 'o globals =
  model :: 'o
  scaler :: 'o
  feature_names :: "string list"

text \<open>The thirteen parameters of \<^verbatim>\<open>predict_loan\<close>, in order.\<close>

record 'f application =
  age :: "'f number"
  gender :: string
  education :: string
  income :: "'f number"
  emp_exp :: "'f number"
  home_ownership :: string
  loan_amount :: "'f number"
  loan_intent :: string
  interest_rate :: "'f number"
  loan_percent_income :: "'f number"
  credit_history :: "'f number"
  credit_score :: "'f number"
  previous_defaults :: string

section \<open>Categorical encoding (lines 25 to 46)\<close>

definition gender_map :: "(string \<times> int) list" where
  "gender_map = [(''female'', 0), (''male'', 1)]"

definition education_map :: "(string \<times> int) list" where
  "education_map = [(''High School'', 0), (''Associate'', 1), (''Bachelor'', 2), (''Master'', 3)]"

definition home_map :: "(string \<times> int) list" where
  "home_map = [(''RENT'', 0), (''OWN'', 1), (''MORTGAGE'', 2), (''OTHER'', 3)]"

definition defaults_map :: "(string \<times> int) list" where
  "defaults_map = [(''No'', 0), (''Yes'', 1)]"

text \<open>\<^verbatim>\<open>d[k]\<close> on a dict: the value, or \<^verbatim>\<open>KeyError(k)\<close>.\<close>

definition getitem :: "(string \<times> 'a) list \<Rightarrow> string \<Rightarrow> exn + 'a" where
  "getitem d k = (case map_of d k of None \<Rightarrow> Inl (KeyError [k]) | Some v \<Rightarrow> Inr v)"

definition intent_education :: "string \<Rightarrow> int" where
  "intent_education i = (if i = ''EDUCATION'' then 1 else 0)"

definition intent_homeimprovement :: "string \<Rightarrow> int" where
  "intent_homeimprovement i = (if i = ''HOMEIMPROVEMENT'' then 1 else 0)"

definition intent_medical :: "string \<Rightarrow> int" where
  "intent_medical i = (if i = ''MEDICAL'' then 1 else 0)"

definition intent_personal :: "string \<Rightarrow> int" where
  "intent_personal i = (if i = ''PERSONAL'' then 1 else 0)"

definition intent_venture :: "string \<Rightarrow> int" where
  "intent_venture i = (if i = ''VENTURE'' then 1 else 0)"

text \<open>The five indicators in the order of lines 42 to 46, and the values they test for.\<close>

definition intent_indicators :: "string \<Rightarrow> int list" where
  "intent_indicators i =
     [intent_education i, intent_homeimprovement i, intent_medical i,
      intent_personal i, intent_venture i]"

definition intents :: "string list" where
  "intents = [''EDUCATION'', ''HOMEIMPROVEMENT'', ''MEDICAL'', ''PERSONAL'', ''VENTURE'']"

section \<open>Feature vector assembly (lines 49 to 70)\<close>

text \<open>The dict literal of lines 49 to 67, keys in insertion order.\<close>

definition input_dict :: "'f application \<Rightarrow> int \<Rightarrow> int \<Rightarrow> int \<Rightarrow> int \<Rightarrow> 'f row" where
  "input_dict a gender_encoded education_encoded home_encoded defaults_encoded =
     [(''person_age'', age a),
      (''person_gender'', PyInt gender_encoded),
      (''person_education'', PyInt education_encoded),
      (''person_income'', income a),
      (''person_emp_exp'', emp_exp a),
      (''person_home_ownership'', PyInt home_encoded),
      (''loan_amnt'', loan_amount a),
      (''loan_int_rate'', interest_rate a),
      (''loan_percent_income'', loan_percent_income a),
      (''cb_person_cred_hist_length'', credit_history a),
      (''credit_score'', credit_score a),
      (''previous_loan_defaults_on_file'', PyInt defaults_encoded),
      (''loan_intent_EDUCATION'', PyInt (intent_education (loan_intent a))),
      (''loan_intent_HOMEIMPROVEMENT'', PyInt (intent_homeimprovement (loan_intent a))),
      (''loan_intent_MEDICAL'', PyInt (intent_medical (loan_intent a))),
      (''loan_intent_PERSONAL'', PyInt (intent_personal (loan_intent a))),
      (''loan_intent_VENTURE'', PyInt (intent_venture (loan_intent a)))]"

definition feature_keys :: "string list" where
  "feature_keys =
     [''person_age'', ''person_gender'', ''person_education'', ''person_income'',
      ''person_emp_exp'', ''person_home_ownership'', ''loan_amnt'', ''loan_int_rate'',
      ''loan_percent_income'', ''cb_person_cred_hist_length'', ''credit_score'',
      ''previous_loan_defaults_on_file'', ''loan_intent_EDUCATION'',
      ''loan_intent_HOMEIMPROVEMENT'', ''loan_intent_MEDICAL'', ''loan_intent_PERSONAL'',
      ''loan_intent_VENTURE'']"

text \<open>
  Lines 25 to 67: the four dict lookups in source order, each of which may raise, then
  the five indicators and the dict.
\<close>

definition encode :: "'f application \<Rightarrow> exn + 'f row" where
  "encode a =
     (case getitem gender_map (gender a) of
        Inl e \<Rightarrow> Inl e
      | Inr gender_encoded \<Rightarrow>
     (case getitem education_map (education a) of
        Inl e \<Rightarrow> Inl e
      | Inr education_encoded \<Rightarrow>
     (case getitem home_map (home_ownership a) of
        Inl e \<Rightarrow> Inl e
      | Inr home_encoded \<Rightarrow>
     (case getitem defaults_map (previous_defaults a) of
        Inl e \<Rightarrow> Inl e
      | Inr defaults_encoded \<Rightarrow>
          Inr (input_dict a gender_encoded education_encoded home_encoded
                 defaults_encoded)))))"

text \<open>
  \<^verbatim>\<open>pd.DataFrame([d])[names]\<close>: the one-row frame whose columns are the requested names,
  in the requested order, each with the value stored under that name. pandas raises
  \<^verbatim>\<open>KeyError\<close> when a requested name is not a column, and performs no other check.
\<close>

definition select_columns :: "(string \<times> 'v) list \<Rightarrow> string list \<Rightarrow> exn + (string \<times> 'v) list" where
  "select_columns d names =
     (case filter (\<lambda>n. map_of d n = None) names of
        [] \<Rightarrow> Inr (map (\<lambda>n. (n, the (map_of d n))) names)
      | m # ms \<Rightarrow> Inl (KeyError (m # ms)))"

text \<open>Lines 25 to 70: encoding, then the selection of line 70.\<close>

definition assemble :: "string list \<Rightarrow> 'f application \<Rightarrow> exn + 'f row" where
  "assemble names a =
     (case encode a of
        Inl e \<Rightarrow> Inl e
      | Inr d \<Rightarrow> select_columns d names)"

section \<open>Inference and the verdict (lines 72 to 91)\<close>

definition check_mark :: string where
  "check_mark = [CHR 0xE2, CHR 0x9C, CHR 0x85]"

definition cross_mark :: string where
  "cross_mark = [CHR 0xE2, CHR 0x9D, CHR 0x8C]"

definition approved :: string where
  "approved = check_mark @ '' Loan Approved''"

definition rejected :: string where
  "rejected = cross_mark @ '' Loan Rejected (High Default Risk)''"

definition error_prefix :: string where
  "error_prefix = cross_mark @ '' Error: ''"

text \<open>Line 88, \<^verbatim>\<open>f"{result}\n\nConfidence: {confidence:.2f}%"\<close>.\<close>

definition format_verdict :: "('o, 'f) library \<Rightarrow> string \<Rightarrow> 'f \<Rightarrow> string" where
  "format_verdict L result confidence =
     result @ [CHR 0x0A, CHR 0x0A] @ ''Confidence: '' @ format_2f L confidence @ ''%''"

text \<open>\<^verbatim>\<open>str(n)\<close> for a natural number.\<close>

definition digit :: "nat \<Rightarrow> char" where
  "digit d = ''0123456789'' ! d"

fun str_nat :: "nat \<Rightarrow> string" where
  "str_nat n = (if n < 10 then [digit n] else str_nat (n div 10) @ [digit (n mod 10)])"

declare str_nat.simps [simp del]

text \<open>\<^verbatim>\<open>xs[i]\<close> on an array, for \<open>i \<ge> 0\<close>: the element, or numpy's \<^verbatim>\<open>IndexError\<close>.\<close>

definition array_getitem :: "'a list \<Rightarrow> nat \<Rightarrow> raised + 'a" where
  "array_getitem xs i =
     (if i < length xs then Inr (xs ! i)
      else Inl (Raised True (''index '' @ str_nat i @ '' is out of bounds for axis 0 with size ''
                               @ str_nat (length xs))))"

text \<open>\<^verbatim>\<open>xs[i][j]\<close>.\<close>

definition array_getitem2 :: "'a list list \<Rightarrow> nat \<Rightarrow> nat \<Rightarrow> raised + 'a" where
  "array_getitem2 xs i j =
     (case array_getitem xs i of
        Inl e \<Rightarrow> Inl e
      | Inr x \<Rightarrow> array_getitem x j)"

text \<open>Lines 81 to 88.\<close>

definition verdict :: "('o, 'f) library \<Rightarrow> int list \<Rightarrow> 'f list list \<Rightarrow> raised + string" where
  "verdict L prediction probability =
     (case array_getitem prediction 0 of
        Inl e \<Rightarrow> Inl e
      | Inr label \<Rightarrow>
          if label = 0 then
            (case array_getitem2 probability 0 0 of
               Inl e \<Rightarrow> Inl e
             | Inr p \<Rightarrow> Inr (format_verdict L approved (times_100 L p)))
          else
            (case array_getitem2 probability 0 1 of
               Inl e \<Rightarrow> Inl e
             | Inr p \<Rightarrow> Inr (format_verdict L rejected (times_100 L p))))"

text \<open>
  The body of the \<^verbatim>\<open>try\<close>, lines 74 to 88. The scaler is used once, the model twice;
  each call hands the receiver on as it left it.
\<close>

definition try_body :: "('o, 'f) library \<Rightarrow> 'o globals \<Rightarrow> 'f row \<Rightarrow> (raised + string) \<times> 'o globals" where
  "try_body L g input_data =
     (case transform L (scaler g) input_data of
        (Inl e, s) \<Rightarrow> (Inl e, g\<lparr>scaler := s\<rparr>)
      | (Inr input_scaled, s) \<Rightarrow>
     (case DataFrame L input_scaled (feature_names g) of
        Inl e \<Rightarrow> (Inl e, g\<lparr>scaler := s\<rparr>)
      | Inr input_scaled_df \<Rightarrow>
     (case predict L (model g) input_scaled_df of
        (Inl e, m) \<Rightarrow> (Inl e, g\<lparr>scaler := s, model := m\<rparr>)
      | (Inr prediction, m) \<Rightarrow>
     (case predict_proba L m input_scaled_df of
        (Inl e, m') \<Rightarrow> (Inl e, g\<lparr>scaler := s, model := m'\<rparr>)
      | (Inr probability, m') \<Rightarrow>
          (verdict L prediction probability, g\<lparr>scaler := s, model := m'\<rparr>)))))"

text \<open>Lines 90 and 91: \<^verbatim>\<open>except Exception as e: return f"... Error: {str(e)}"\<close>.\<close>

definition except_Exception :: "raised + string \<Rightarrow> exn + string" where
  "except_Exception r =
     (case r of
        Inr s \<Rightarrow> Inr s
      | Inl e \<Rightarrow> if is_Exception e then Inr (error_prefix @ str e) else Inl (Uncaught e))"

text \<open>
  The whole function. \<open>Inr\<close> is the returned string, \<open>Inl\<close> an exception that leaves the
  function; the second component is the module-level state after the call.
\<close>

definition predict_loan :: "('o, 'f) library \<Rightarrow> 'o globals \<Rightarrow> 'f application \<Rightarrow> (exn + string) \<times> 'o globals" where
  "predict_loan L g a =
     (case assemble (feature_names g) a of
        Inl e \<Rightarrow> (Inl e, g)
      | Inr input_data \<Rightarrow>
          (case try_body L g input_data of
             (r, g') \<Rightarrow> (except_Exception r, g')))"

section \<open>The inputs the form admits (lines 96 to 113)\<close>

text \<open>
  The \<^verbatim>\<open>choices\<close> of the four dropdowns whose value is looked up in a dict. The
  choices of the loan intent dropdown are \<^const>\<open>intents\<close>.
\<close>

definition gender_choices :: "string list" where
  "gender_choices = [''male'', ''female'']"

definition education_choices :: "string list" where
  "education_choices = [''High School'', ''Associate'', ''Bachelor'', ''Master'']"

definition home_choices :: "string list" where
  "home_choices = [''RENT'', ''OWN'', ''MORTGAGE'', ''OTHER'']"

definition defaults_choices :: "string list" where
  "defaults_choices = [''Yes'', ''No'']"

definition valid_codes :: "'f application \<Rightarrow> bool" where
  "valid_codes a \<longleftrightarrow>
     gender a \<in> set gender_choices \<and> education a \<in> set education_choices \<and>
     home_ownership a \<in> set home_choices \<and> previous_defaults a \<in> set defaults_choices"


section \<open>Properties of the library that the claims presuppose\<close>

text \<open>
  A library whose three methods leave their receiver as they found it, as the
  inference methods of a fitted scikit-learn estimator do.
\<close>

definition read_only :: "('o, 'f) library \<Rightarrow> bool" where
  "read_only L \<longleftrightarrow>
     (\<forall>s X. snd (transform L s X) = s) \<and>
     (\<forall>m X. snd (predict L m X) = m) \<and>
     (\<forall>m X. snd (predict_proba L m X) = m)"

section \<open>A concrete artifact and a concrete application\<close>

text \<open>
  An instance of the library on which the model can be run: floats are idealised as
  rationals, objects are vectors of rationals. The scaler subtracts a fitted offset
  from each column and rejects a row of the wrong width, the classifier is linear with
  fixed class probabilities. \<open>dec2\<close> prints a rational the way \<^verbatim>\<open>:.2f\<close> prints a
  float of that exact value (round half to even on the second decimal).
\<close>

definition dec2 :: "rat \<Rightarrow> string" where
  "dec2 x =
     (let y = \<bar>x\<bar> * 100;
          k = \<lfloor>y\<rfloor>;
          r = y - of_int k;
          n = nat (if r < 1 / 2 then k else if 1 / 2 < r then k + 1
                   else if even k then k else k + 1)
      in (if x < 0 then ''-'' else []) @ str_nat (n div 100) @ ''.''
           @ [digit (n mod 100 div 10), digit (n mod 10)])"

fun value_of :: "rat number \<Rightarrow> rat" where
  "value_of (PyInt i) = of_int i"
| "value_of (PyFloat x) = x"

definition demo_library :: "(rat list, rat) library" where
  "demo_library =
     \<lparr> transform = (\<lambda>s X.
         (if length X = length s then Inr (map2 (\<lambda>(n, v) c. value_of v - c) X s)
          else Inl (Raised True (''X has '' @ str_nat (length X)
                 @ '' features, but StandardScaler is expecting '' @ str_nat (length s)
                 @ '' features as input.'')),
          s)),
       DataFrame = (\<lambda>X names.
         if length X = length names then Inr X
         else Inl (Raised True ''Shape of passed values does not match the columns'')),
       predict = (\<lambda>m X. (Inr [if 0 < sum_list (map2 (*) m X) then 1 else 0], m)),
       predict_proba = (\<lambda>m X.
         (Inr [if 0 < sum_list (map2 (*) m X) then [1 / 4, 3 / 4] else [3 / 4, 1 / 4]], m)),
       times_100 = (\<lambda>p. p * 100),
       format_2f = dec2 \<rparr>"

definition demo_globals :: "rat list globals" where
  "demo_globals =
     \<lparr> model = [0, 0, 0, 0, 0, 0, 0, 0, 0, 0, -1, 0, 0, 0, 0, 0, 0],
       scaler = [0, 0, 0, 0, 0, 0, 0, 0, 0, 0, 650, 0, 0, 0, 0, 0, 0],
       feature_names = feature_keys \<rparr>"

text \<open>The second example row of the interface, line 119.\<close>

definition example_2 :: "rat application" where
  "example_2 =
     \<lparr> age = PyInt 45, gender = ''female'', education = ''Master'', income = PyInt 80000,
       emp_exp = PyInt 15, home_ownership = ''OWN'', loan_amount = PyInt 25000,
       loan_intent = ''EDUCATION'', interest_rate = PyFloat (17 / 2),
       loan_percent_income = PyFloat (1 / 4), credit_history = PyInt 10,
       credit_score = PyInt 720, previous_defaults = ''No'' \<rparr>"

text \<open>The frame assembled from \<open>example_2\<close> under \<open>demo_globals\<close>, and its scaled form.\<close>

definition demo_row :: "rat row" where
  "demo_row =
     [(''person_age'', PyInt 45), (''person_gender'', PyInt 0),
      (''person_education'', PyInt 3), (''person_income'', PyInt 80000),
      (''person_emp_exp'', PyInt 15), (''person_home_ownership'', PyInt 1),
      (''loan_amnt'', PyInt 25000), (''loan_int_rate'', PyFloat (17 / 2)),
      (''loan_percent_income'', PyFloat (1 / 4)),
      (''cb_person_cred_hist_length'', PyInt 10), (''credit_score'', PyInt 720),
      (''previous_loan_defaults_on_file'', PyInt 0),
      (''loan_intent_EDUCATION'', PyInt 1), (''loan_intent_HOMEIMPROVEMENT'', PyInt 0),
      (''loan_intent_MEDICAL'', PyInt 0), (''loan_intent_PERSONAL'', PyInt 0),
      (''loan_intent_VENTURE'', PyInt 0)]"

definition demo_scaled :: "rat list" where
  "demo_scaled = [45, 0, 3, 80000, 15, 1, 25000, 17 / 2, 1 / 4, 10, 70, 0, 1, 0, 0, 0, 0]"

section \<open>Auxiliary facts\<close>

lemmas encoder_defs = getitem_def gender_map_def education_map_def home_map_def defaults_map_def
lemmas choices_defs = gender_choices_def education_choices_def home_choices_def defaults_choices_def

lemma map_fst_input_dict: "map fst (input_dict a ge ee he de) = feature_keys"
  by (simp add: input_dict_def feature_keys_def)


lemma length_feature_keys: "length feature_keys = 17"
  by (simp add: feature_keys_def)

lemma encode_keys: "encode a = Inr d \<Longrightarrow> map fst d = feature_keys"
  by (auto simp: encode_def map_fst_input_dict split: sum.splits)

lemma getitem_choice:
  "k \<in> set gender_choices \<Longrightarrow> \<exists>v. getitem gender_map k = Inr v"
  "k \<in> set education_choices \<Longrightarrow> \<exists>v. getitem education_map k = Inr v"
  "k \<in> set home_choices \<Longrightarrow> \<exists>v. getitem home_map k = Inr v"
  "k \<in> set defaults_choices \<Longrightarrow> \<exists>v. getitem defaults_map k = Inr v"
  by (auto simp: encoder_defs choices_defs)

lemma encode_valid:
  assumes "valid_codes a"
  shows "\<exists>ge ee he de. encode a = Inr (input_dict a ge ee he de)"
proof -
  from assms obtain ge ee he de where
    "getitem gender_map (gender a) = Inr ge" "getitem education_map (education a) = Inr ee"
    "getitem home_map (home_ownership a) = Inr he"
    "getitem defaults_map (previous_defaults a) = Inr de"
    unfolding valid_codes_def using getitem_choice by metis
  then show ?thesis by (auto simp: encode_def)
qed

lemma select_columns_Inr:
  assumes "set names \<subseteq> fst ` set d"
  shows "select_columns d names = Inr (map (\<lambda>n. (n, the (map_of d n))) names)"
proof -
  have "filter (\<lambda>n. map_of d n = None) names = []"
    using assms by (auto simp: filter_empty_conv map_of_eq_None_iff)
  then show ?thesis by (simp add: select_columns_def)
qed

lemma select_columns_Inl:
  assumes "\<not> set names \<subseteq> fst ` set d"
  shows "select_columns d names = Inl (KeyError (filter (\<lambda>n. n \<notin> fst ` set d) names))"
proof -
  have eq: "filter (\<lambda>n. map_of d n = None) names = filter (\<lambda>n. n \<notin> fst ` set d) names"
    by (simp add: map_of_eq_None_iff)
  from assms have "filter (\<lambda>n. n \<notin> fst ` set d) names \<noteq> []"
    by (auto simp: filter_empty_conv)
  then show ?thesis
    by (simp add: select_columns_def eq split: list.splits)
qed


lemma transform_read_only: "read_only L \<Longrightarrow> transform L s X = (r, s') \<Longrightarrow> s' = s"
  unfolding read_only_def by (metis snd_conv)

lemma predict_read_only: "read_only L \<Longrightarrow> predict L m X = (r, m') \<Longrightarrow> m' = m"
  unfolding read_only_def by (metis snd_conv)

lemma predict_proba_read_only: "read_only L \<Longrightarrow> predict_proba L m X = (r, m') \<Longrightarrow> m' = m"
  unfolding read_only_def by (metis snd_conv)

lemma try_body_frame:
  assumes "read_only L"
  shows "snd (try_body L g X) = g"
  unfolding try_body_def
  by (auto split: prod.splits sum.splits
      dest!: transform_read_only [OF assms] predict_read_only [OF assms]
        predict_proba_read_only [OF assms])

lemma try_body_feature_names: "feature_names (snd (try_body L g X)) = feature_names g"
  unfolding try_body_def
  by (auto split: prod.splits sum.splits)

lemma predict_loan_frame:
  assumes "read_only L"
  shows "snd (predict_loan L g a) = g"
proof (cases "assemble (feature_names g) a")
  case (Inl e)
  then show ?thesis by (simp add: predict_loan_def)
next
  case (Inr X)
  obtain r g' where tb: "try_body L g X = (r, g')" by (cases "try_body L g X")
  with try_body_frame [OF assms, of g X] have "g' = g" by simp
  with Inr tb show ?thesis by (simp add: predict_loan_def)
qed

lemma predict_loan_feature_names: "feature_names (snd (predict_loan L g a)) = feature_names g"
proof (cases "assemble (feature_names g) a")
  case (Inl e)
  then show ?thesis by (simp add: predict_loan_def)
next
  case (Inr X)
  obtain r g' where tb: "try_body L g X = (r, g')" by (cases "try_body L g X")
  with try_body_feature_names [of L g X] have "feature_names g' = feature_names g" by simp
  with Inr tb show ?thesis by (simp add: predict_loan_def)
qed

lemma predict_loan_KeyError:
  assumes "fst (predict_loan L g a) = Inl (KeyError ks)"
  shows "assemble (feature_names g) a = Inl (KeyError ks)"
proof (cases "assemble (feature_names g) a")
  case (Inl e)
  with assms show ?thesis by (simp add: predict_loan_def)
next
  case (Inr X)
  obtain r g' where tb: "try_body L g X = (r, g')" by (cases "try_body L g X")
  with Inr assms show ?thesis
    by (simp add: predict_loan_def except_Exception_def split: sum.splits if_splits)
qed

lemmas pipeline_defs = predict_loan_def assemble_def encode_def input_dict_def select_columns_def
  try_body_def verdict_def array_getitem_def array_getitem2_def format_verdict_def
  except_Exception_def intent_education_def intent_homeimprovement_def intent_medical_def
  intent_personal_def intent_venture_def

lemma assemble_selects:
  assumes "encode a = Inr d"
  shows "(set names \<subseteq> set feature_keys \<longrightarrow>
            (\<exists>X. assemble names a = Inr X \<and> map fst X = names \<and>
                 (\<forall>(n, v) \<in> set X. map_of d n = Some v))) \<and>
         (\<not> set names \<subseteq> set feature_keys \<longrightarrow>
            assemble names a = Inl (KeyError (filter (\<lambda>n. n \<notin> set feature_keys) names)))"
proof -
  have keys: "fst ` set d = set feature_keys"
    using encode_keys [OF assms] by (metis set_map)
  show ?thesis
  proof (intro conjI impI)
    assume sub: "set names \<subseteq> set feature_keys"
    then have "select_columns d names = Inr (map (\<lambda>n. (n, the (map_of d n))) names)"
      using select_columns_Inr [of names d] keys by simp
    moreover have "\<forall>(n, v) \<in> set (map (\<lambda>n. (n, the (map_of d n))) names). map_of d n = Some v"
    proof -
      have "map_of d n \<noteq> None" if "n \<in> set names" for n
        using that sub keys by (auto simp: map_of_eq_None_iff)
      then show ?thesis by auto
    qed
    moreover have "map fst (map (\<lambda>n. (n, the (map_of d n))) names) = names"
      by (simp add: comp_def)
    ultimately show "\<exists>X. assemble names a = Inr X \<and> map fst X = names \<and>
                 (\<forall>(n, v) \<in> set X. map_of d n = Some v)"
      using assms by (simp add: assemble_def)
  next
    assume "\<not> set names \<subseteq> set feature_keys"
    then show "assemble names a = Inl (KeyError (filter (\<lambda>n. n \<notin> set feature_keys) names))"
      using select_columns_Inl [of names d] keys assms by (simp add: assemble_def)
  qed
qed


lemma predict_loan_assembled:
  assumes "assemble (feature_names g) a = Inr X"
  shows "predict_loan L g a = (except_Exception (fst (try_body L g X)), snd (try_body L g X))"
  using assms by (simp add: predict_loan_def split: prod.splits)

lemma qualifier_in_headline:
  "sublist ''High Default Risk'' rejected" "\<not> sublist ''High Default Risk'' approved"
  by (simp_all add: rejected_def approved_def cross_mark_def check_mark_def sublist_code)

lemma try_body_success:
  assumes "transform L (scaler g) X = (Inr Y, s)"
    and "DataFrame L Y (feature_names g) = Inr df"
    and "predict L (model g) df = (Inr prediction, m)"
    and "predict_proba L m df = (Inr probability, m')"
  shows "fst (try_body L g X) = verdict L prediction probability"
  using assms by (simp add: try_body_def)

lemma try_body_raises:
  assumes "transform L (scaler g) X = (Inl e, s) \<or>
           (\<exists>Y. transform L (scaler g) X = (Inr Y, s) \<and>
              (DataFrame L Y (feature_names g) = Inl e \<or>
               (\<exists>df. DataFrame L Y (feature_names g) = Inr df \<and>
                  (fst (predict L (model g) df) = Inl e \<or>
                   (\<exists>P m. predict L (model g) df = (Inr P, m) \<and>
                      fst (predict_proba L m df) = Inl e)))))"
  shows "fst (try_body L g X) = Inl e"
  using assms
  by (auto simp: try_body_def split: prod.splits sum.splits)

lemma demo_assemble: "assemble (feature_names demo_globals) example_2 = Inr demo_row"
  by (simp add: pipeline_defs encoder_defs example_2_def demo_globals_def feature_keys_def
      demo_row_def)

lemma demo_transform:
  "transform demo_library (scaler demo_globals) demo_row = (Inr demo_scaled, scaler demo_globals)"
  by (simp add: demo_library_def demo_globals_def demo_row_def demo_scaled_def)

lemma demo_DataFrame:
  "DataFrame demo_library demo_scaled (feature_names demo_globals) = Inr demo_scaled"
  by (simp add: demo_library_def demo_globals_def demo_scaled_def feature_keys_def)

lemma demo_predict:
  "predict demo_library (model demo_globals) demo_scaled = (Inr [0], model demo_globals)"
  by (simp add: demo_library_def demo_globals_def demo_scaled_def)

lemma demo_predict_proba:
  "predict_proba demo_library (model demo_globals) demo_scaled
     = (Inr [[3 / 4, 1 / 4]], model demo_globals)"
  by (simp add: demo_library_def demo_globals_def demo_scaled_def)

lemma demo_format: "format_2f demo_library (times_100 demo_library (3 / 4)) = ''75.00''"
  by (simp add: demo_library_def dec2_def str_nat.simps digit_def)

lemma demo_read_only: "read_only demo_library"
  by (simp add: read_only_def demo_library_def)

section \<open>The claims\<close>


text \<open>
  C5. For a loan intent among the five declared ones, the five indicators are 0 or 1,
  the one that belongs to the supplied intent is 1 and the other four are 0; the five
  \<^verbatim>\<open>loan_intent_\<close> entries of the dict hold these indicators.
\<close>

theorem intent_one_hot:
  assumes "i \<in> set intents"
  shows "intent_indicators i = map (\<lambda>j. if j = i then 1 else 0) intents \<and>
         length (filter (\<lambda>x. x = 1) (intent_indicators i)) = 1 \<and>
         length (filter (\<lambda>x. x = 0) (intent_indicators i)) = 4 \<and>
         map (map_of (input_dict a ge ee he de))
           [''loan_intent_EDUCATION'', ''loan_intent_HOMEIMPROVEMENT'', ''loan_intent_MEDICAL'',
            ''loan_intent_PERSONAL'', ''loan_intent_VENTURE'']
           = map (\<lambda>x. Some (PyInt x)) (intent_indicators (loan_intent a))"
  using assms
  by (auto simp: intents_def intent_indicators_def intent_education_def
      intent_homeimprovement_def intent_medical_def intent_personal_def intent_venture_def
      input_dict_def)

theorem intent_one_hot_witness:
  "''MEDICAL'' \<in> set intents \<and> intent_indicators ''MEDICAL'' = [0, 0, 1, 0, 0]"
  using intent_one_hot [of "''MEDICAL''" example_2 0 3 1 0]
  by (simp add: intents_def)




text \<open>
  C2. The claim is that an enum field outside its domain, such as the education
  \<^verbatim>\<open>PhD\<close>, yields an error-prefixed string. In the code the lookup of line 31
  stands before the \<^verbatim>\<open>try\<close> of line 72: with any library and any module state, the
  call on the second example row with the education replaced by \<^verbatim>\<open>PhD\<close> returns
  no string; \<^verbatim>\<open>KeyError('PhD')\<close> leaves the function.
\<close>

theorem predict_loan_PhD_raises:
  "predict_loan L g (example_2\<lparr>education := ''PhD''\<rparr>) = (Inl (KeyError [''PhD'']), g)"
  by (simp add: predict_loan_def assemble_def encode_def encoder_defs example_2_def)

text \<open>
  C3. When the assembly, the scaling, the frame construction and both classifier calls
  succeed and the classifier returns a first label and a first probability row with
  at least two entries: for label 0 the returned string is the approval headline, two
  newlines and the confidence line built from the first probability times 100; for
  label 1 it is the rejection headline, two newlines and the confidence line built
  from the second probability times 100. In both cases the number is printed with
  \<^verbatim>\<open>:.2f\<close>, and the headline contains \<^verbatim>\<open>High Default Risk\<close> exactly when the label is
  not 0, that is, when the outcome is the rejection.
\<close>

theorem verdict_of_label:
  assumes "assemble (feature_names g) a = Inr X"
    and "transform L (scaler g) X = (Inr Y, s)"
    and "DataFrame L Y (feature_names g) = Inr df"
    and "predict L (model g) df = (Inr (label # labels), m)"
    and "predict_proba L m df = (Inr ((p0 # p1 # ps) # rows), m')"
  shows "(label = 0 \<longrightarrow>
            fst (predict_loan L g a) =
              Inr (check_mark @ '' Loan Approved'' @ [CHR 0x0A, CHR 0x0A] @ ''Confidence: ''
                     @ format_2f L (times_100 L p0) @ ''%'')) \<and>
         (label = 1 \<longrightarrow>
            fst (predict_loan L g a) =
              Inr (cross_mark @ '' Loan Rejected (High Default Risk)'' @ [CHR 0x0A, CHR 0x0A]
                     @ ''Confidence: '' @ format_2f L (times_100 L p1) @ ''%'')) \<and>
         (\<exists>headline line.
            fst (predict_loan L g a) = Inr (headline @ [CHR 0x0A, CHR 0x0A] @ line) \<and>
            headline = (if label = 0 then approved else rejected) \<and>
            line = ''Confidence: '' @ format_2f L (times_100 L (if label = 0 then p0 else p1)) @ ''%'' \<and>
            (sublist ''High Default Risk'' headline \<longleftrightarrow> label \<noteq> 0))"
proof -
  have v: "fst (try_body L g X) = verdict L (label # labels) ((p0 # p1 # ps) # rows)"
    using assms(2-5) by (rule try_body_success)
  have r: "fst (predict_loan L g a) =
             Inr ((if label = 0 then approved else rejected) @ [CHR 0x0A, CHR 0x0A] @
                  (''Confidence: '' @ format_2f L (times_100 L (if label = 0 then p0 else p1)) @ ''%''))"
    by (simp add: predict_loan_assembled [OF assms(1)] v except_Exception_def verdict_def
        array_getitem_def array_getitem2_def format_verdict_def)
  have q: "sublist ''High Default Risk'' (if label = 0 then approved else rejected) \<longleftrightarrow> label \<noteq> 0"
    using qualifier_in_headline by simp
  from r have "label = 0 \<longrightarrow>
            fst (predict_loan L g a) =
              Inr (check_mark @ '' Loan Approved'' @ [CHR 0x0A, CHR 0x0A] @ ''Confidence: ''
                     @ format_2f L (times_100 L p0) @ ''%'')"
    by (simp add: approved_def)
  moreover from r have "label = 1 \<longrightarrow>
            fst (predict_loan L g a) =
              Inr (cross_mark @ '' Loan Rejected (High Default Risk)'' @ [CHR 0x0A, CHR 0x0A]
                     @ ''Confidence: '' @ format_2f L (times_100 L p1) @ ''%'')"
    by (simp add: rejected_def)
  moreover from r q have
    "fst (predict_loan L g a) =
       Inr ((if label = 0 then approved else rejected) @ [CHR 0x0A, CHR 0x0A] @
            (''Confidence: '' @ format_2f L (times_100 L (if label = 0 then p0 else p1)) @ ''%'')) \<and>
     (if label = 0 then approved else rejected) = (if label = 0 then approved else rejected) \<and>
     ''Confidence: '' @ format_2f L (times_100 L (if label = 0 then p0 else p1)) @ ''%''
       = ''Confidence: '' @ format_2f L (times_100 L (if label = 0 then p0 else p1)) @ ''%'' \<and>
     (sublist ''High Default Risk'' (if label = 0 then approved else rejected) \<longleftrightarrow> label \<noteq> 0)"
    by (intro conjI refl)
  then have "\<exists>headline line.
            fst (predict_loan L g a) = Inr (headline @ [CHR 0x0A, CHR 0x0A] @ line) \<and>
            headline = (if label = 0 then approved else rejected) \<and>
            line = ''Confidence: '' @ format_2f L (times_100 L (if label = 0 then p0 else p1)) @ ''%'' \<and>
            (sublist ''High Default Risk'' headline \<longleftrightarrow> label \<noteq> 0)"
    by (intro exI)
  ultimately show ?thesis by (intro conjI)
qed

theorem verdict_of_label_witness:
  "assemble (feature_names demo_globals) example_2 = Inr demo_row \<and>
   transform demo_library (scaler demo_globals) demo_row = (Inr demo_scaled, scaler demo_globals) \<and>
   DataFrame demo_library demo_scaled (feature_names demo_globals) = Inr demo_scaled \<and>
   predict demo_library (model demo_globals) demo_scaled = (Inr [0], model demo_globals) \<and>
   predict_proba demo_library (model demo_globals) demo_scaled
     = (Inr [[3 / 4, 1 / 4]], model demo_globals) \<and>
   fst (predict_loan demo_library demo_globals example_2) =
     Inr (check_mark @ '' Loan Approved'' @ [CHR 0x0A, CHR 0x0A] @ ''Confidence: 75.00%'')"
  using verdict_of_label [OF demo_assemble demo_transform demo_DataFrame demo_predict
      demo_predict_proba]
    demo_assemble demo_transform demo_DataFrame demo_predict demo_predict_proba
  by (simp add: demo_format)



text \<open>
  C7. Once the frame is assembled, an exception that \<^verbatim>\<open>except Exception\<close> matches and
  that is raised by the scaling transform, by the construction of the scaled frame, by
  \<^verbatim>\<open>predict\<close> or by \<^verbatim>\<open>predict_proba\<close> does not leave the function: the call returns
  the error prefix followed by \<^verbatim>\<open>str(e)\<close>.
\<close>

theorem predict_loan_catches:
  assumes "assemble (feature_names g) a = Inr X"
    and "is_Exception e"
    and "transform L (scaler g) X = (Inl e, s) \<or>
           (\<exists>Y. transform L (scaler g) X = (Inr Y, s) \<and>
              (DataFrame L Y (feature_names g) = Inl e \<or>
               (\<exists>df. DataFrame L Y (feature_names g) = Inr df \<and>
                  (fst (predict L (model g) df) = Inl e \<or>
                   (\<exists>P m. predict L (model g) df = (Inr P, m) \<and>
                      fst (predict_proba L m df) = Inl e)))))"
  shows "fst (predict_loan L g a) = Inr (error_prefix @ str e)"
  using assms(2) try_body_raises [OF assms(3)]
  by (simp add: predict_loan_assembled [OF assms(1)] except_Exception_def)

theorem predict_loan_catches_witness:
  "assemble (remove1 ''credit_score'' feature_keys) example_2
     = Inr (filter (\<lambda>(n, v). n \<noteq> ''credit_score'') demo_row) \<and>
   is_Exception (Raised True
     ''X has 16 features, but StandardScaler is expecting 17 features as input.'') \<and>
   fst (predict_loan demo_library
          (demo_globals\<lparr>feature_names := remove1 ''credit_score'' feature_keys\<rparr>) example_2) =
     Inr (error_prefix @
          ''X has 16 features, but StandardScaler is expecting 17 features as input.'')"
proof -
  let ?g = "demo_globals\<lparr>feature_names := remove1 ''credit_score'' feature_keys\<rparr>"
  let ?X = "filter (\<lambda>(n, v). n \<noteq> ''credit_score'') demo_row"
  let ?e = "Raised True ''X has 16 features, but StandardScaler is expecting 17 features as input.''"
  have a: "assemble (feature_names ?g) example_2 = Inr ?X"
    by (simp add: pipeline_defs encoder_defs example_2_def feature_keys_def demo_row_def)
  have e: "is_Exception ?e" by simp
  have t: "transform demo_library (scaler ?g) ?X = (Inl ?e, scaler demo_globals)"
    by (simp add: demo_library_def demo_globals_def demo_row_def str_nat.simps digit_def)
  from predict_loan_catches [OF a e disjI1, OF t] a show ?thesis by simp
qed



text \<open>
  C9. A call never changes \<^verbatim>\<open>feature_names\<close>. The only operations it performs on the
  model and the scaler are the three inference methods, so with methods that leave
  their receiver unchanged the whole module state after the call is the state before
  it, whether the call returns a verdict, returns an error string or raises. A call
  that raises \<^verbatim>\<open>KeyError\<close> has not reached the model or the scaler at all.
\<close>

theorem predict_loan_preserves_globals:
  "feature_names (snd (predict_loan L g a)) = feature_names g \<and>
   (read_only L \<longrightarrow> snd (predict_loan L g a) = g) \<and>
   (\<forall>ks. fst (predict_loan L g a) = Inl (KeyError ks) \<longrightarrow> snd (predict_loan L g a) = g)"
proof -
  have "snd (predict_loan L g a) = g" if "fst (predict_loan L g a) = Inl (KeyError ks)" for ks
    using predict_loan_KeyError [OF that] by (simp add: predict_loan_def)
  with predict_loan_feature_names [of L g a] predict_loan_frame [of L g a]
  show ?thesis by blast
qed

theorem predict_loan_preserves_globals_witness:
  "read_only demo_library \<and>
   snd (predict_loan demo_library demo_globals example_2) = demo_globals \<and>
   fst (predict_loan demo_library demo_globals (example_2\<lparr>education := ''PhD''\<rparr>))
     = Inl (KeyError [''PhD'']) \<and>
   snd (predict_loan demo_library demo_globals (example_2\<lparr>education := ''PhD''\<rparr>))
     = demo_globals"
proof -
  have k: "fst (predict_loan demo_library demo_globals (example_2\<lparr>education := ''PhD''\<rparr>))
             = Inl (KeyError [''PhD''])"
    by (simp add: predict_loan_def assemble_def encode_def encoder_defs example_2_def)
  from predict_loan_preserves_globals [of demo_library demo_globals example_2] demo_read_only
  have "snd (predict_loan demo_library demo_globals example_2) = demo_globals" by simp
  moreover from
    predict_loan_preserves_globals
      [of demo_library demo_globals "example_2\<lparr>education := ''PhD''\<rparr>"] k
  have "snd (predict_loan demo_library demo_globals (example_2\<lparr>education := ''PhD''\<rparr>))
          = demo_globals" by simp
  ultimately show ?thesis using k demo_read_only by simp
qed

text \<open>
  C10. For a loan intent outside the five declared ones (the other categorical fields
  being valid) the encoding raises nothing and all five indicators are 0: the dict has
  the seventeen keys with an all-zero \<^verbatim>\<open>loan_intent_\<close> block, and with a declared
  feature list drawn from the seventeen keys the frame is assembled and handed to the
  \<^verbatim>\<open>try\<close> block, whose outcome is the outcome of the call.
\<close>

theorem unknown_intent_all_zero:
  assumes "valid_codes a" and "loan_intent a \<notin> set intents"
  shows "intent_indicators (loan_intent a) = [0, 0, 0, 0, 0] \<and>
         (\<exists>d. encode a = Inr d \<and> map fst d = feature_keys \<and> length d = 17 \<and>
              map (map_of d)
                [''loan_intent_EDUCATION'', ''loan_intent_HOMEIMPROVEMENT'',
                 ''loan_intent_MEDICAL'', ''loan_intent_PERSONAL'', ''loan_intent_VENTURE'']
                = [Some (PyInt 0), Some (PyInt 0), Some (PyInt 0), Some (PyInt 0), Some (PyInt 0)] \<and>
              (set (feature_names g) \<subseteq> set feature_keys \<longrightarrow>
                 (\<exists>X. assemble (feature_names g) a = Inr X \<and> map fst X = feature_names g \<and>
                      (\<forall>(n, v) \<in> set X. map_of d n = Some v) \<and>
                      predict_loan L g a =
                        (except_Exception (fst (try_body L g X)), snd (try_body L g X)))))"
proof -
  have zero: "intent_indicators (loan_intent a) = [0, 0, 0, 0, 0]"
    using assms(2)
    by (simp add: intents_def intent_indicators_def intent_education_def
        intent_homeimprovement_def intent_medical_def intent_personal_def intent_venture_def)
  from encode_valid [OF assms(1)] obtain ge ee he de where
    d: "encode a = Inr (input_dict a ge ee he de)" by blast
  let ?d = "input_dict a ge ee he de"
  have keys: "map fst ?d = feature_keys" by (rule map_fst_input_dict)
  have len: "length ?d = 17" using keys length_feature_keys by (metis length_map)
  have block: "map (map_of ?d)
                [''loan_intent_EDUCATION'', ''loan_intent_HOMEIMPROVEMENT'',
                 ''loan_intent_MEDICAL'', ''loan_intent_PERSONAL'', ''loan_intent_VENTURE'']
                = [Some (PyInt 0), Some (PyInt 0), Some (PyInt 0), Some (PyInt 0), Some (PyInt 0)]"
    using assms(2)
    by (simp add: input_dict_def intents_def intent_education_def
        intent_homeimprovement_def intent_medical_def intent_personal_def intent_venture_def)
  have pass: "\<exists>X. assemble (feature_names g) a = Inr X \<and> map fst X = feature_names g \<and>
                      (\<forall>(n, v) \<in> set X. map_of ?d n = Some v) \<and>
                      predict_loan L g a =
                        (except_Exception (fst (try_body L g X)), snd (try_body L g X))"
    if sub: "set (feature_names g) \<subseteq> set feature_keys"
  proof -
    from assemble_selects [OF d, of "feature_names g", THEN conjunct1, THEN mp, OF sub]
    obtain X where X: "assemble (feature_names g) a = Inr X" "map fst X = feature_names g"
      "\<forall>(n, v) \<in> set X. map_of ?d n = Some v"
      by (elim exE conjE)
    from predict_loan_assembled [OF X(1), of L] X show ?thesis by (intro exI conjI)
  qed
  have "encode a = Inr ?d \<and> map fst ?d = feature_keys \<and> length ?d = 17 \<and>
        map (map_of ?d)
          [''loan_intent_EDUCATION'', ''loan_intent_HOMEIMPROVEMENT'',
           ''loan_intent_MEDICAL'', ''loan_intent_PERSONAL'', ''loan_intent_VENTURE'']
          = [Some (PyInt 0), Some (PyInt 0), Some (PyInt 0), Some (PyInt 0), Some (PyInt 0)] \<and>
        (set (feature_names g) \<subseteq> set feature_keys \<longrightarrow>
           (\<exists>X. assemble (feature_names g) a = Inr X \<and> map fst X = feature_names g \<and>
                (\<forall>(n, v) \<in> set X. map_of ?d n = Some v) \<and>
                predict_loan L g a =
                  (except_Exception (fst (try_body L g X)), snd (try_body L g X))))"
    using d keys len block pass by (intro conjI impI)
  then have "\<exists>d. encode a = Inr d \<and> map fst d = feature_keys \<and> length d = 17 \<and>
        map (map_of d)
          [''loan_intent_EDUCATION'', ''loan_intent_HOMEIMPROVEMENT'',
           ''loan_intent_MEDICAL'', ''loan_intent_PERSONAL'', ''loan_intent_VENTURE'']
          = [Some (PyInt 0), Some (PyInt 0), Some (PyInt 0), Some (PyInt 0), Some (PyInt 0)] \<and>
        (set (feature_names g) \<subseteq> set feature_keys \<longrightarrow>
           (\<exists>X. assemble (feature_names g) a = Inr X \<and> map fst X = feature_names g \<and>
                (\<forall>(n, v) \<in> set X. map_of d n = Some v) \<and>
                predict_loan L g a =
                  (except_Exception (fst (try_body L g X)), snd (try_body L g X))))"
    by (rule exI)
  with zero show ?thesis by (rule conjI)
qed

theorem unknown_intent_all_zero_witness:
  "valid_codes (example_2\<lparr>loan_intent := ''DEBTCONSOLIDATION''\<rparr>) \<and>
   loan_intent (example_2\<lparr>loan_intent := ''DEBTCONSOLIDATION''\<rparr>) \<notin> set intents \<and>
   intent_indicators (loan_intent (example_2\<lparr>loan_intent := ''DEBTCONSOLIDATION''\<rparr>))
     = [0, 0, 0, 0, 0] \<and>
   (\<exists>X. assemble (feature_names demo_globals)
          (example_2\<lparr>loan_intent := ''DEBTCONSOLIDATION''\<rparr>) = Inr X \<and>
        map fst X = feature_keys)"
proof -
  let ?a = "example_2\<lparr>loan_intent := ''DEBTCONSOLIDATION''\<rparr>"
  have v: "valid_codes ?a" by (simp add: valid_codes_def choices_defs example_2_def)
  have n: "loan_intent ?a \<notin> set intents" by (simp add: intents_def)
  have sub: "set (feature_names demo_globals) \<subseteq> set feature_keys"
    by (simp add: demo_globals_def)
  note u = unknown_intent_all_zero [OF v n, of demo_globals demo_library]
  from u have z: "intent_indicators (loan_intent ?a) = [0, 0, 0, 0, 0]" by (rule conjunct1)
  from u [THEN conjunct2] sub obtain X where
    "assemble (feature_names demo_globals) ?a = Inr X" "map fst X = feature_names demo_globals"
    by (elim exE conjE impE)
  then have "\<exists>X. assemble (feature_names demo_globals) ?a = Inr X \<and> map fst X = feature_keys"
    by (simp add: demo_globals_def)
  with v n z show ?thesis by (intro conjI)
qed

end
